theory Spec2Isabelle
  imports Complex_Main
begin

section \<open>Python strings\<close>

text \<open>
  A Python \<open>str\<close> is modelled as a \<open>string\<close> whose characters are the code points
  0..255 (Latin-1).  The character classes below are the ones \<open>str.split\<close>,
  \<open>str.isdigit\<close> and \<open>str.lower\<close> use on that range.
\<close>

definition py_isspace :: "char \<Rightarrow> bool" where
  "py_isspace c = (of_char c \<in> {9, 10, 11, 12, 13, 28, 29, 30, 31, 32, 133, 160 :: nat})"

definition ascii_digit :: "char \<Rightarrow> bool" where
  "ascii_digit c = (c \<in> set ''0123456789'')"

definition py_isdigit_char :: "char \<Rightarrow> bool" where
  \<comment> \<open>the superscripts 0xB2, 0xB3, 0xB9 are digits for \<open>str.isdigit\<close>\<close>
  "py_isdigit_char c = (ascii_digit c \<or> of_char c \<in> {178, 179, 185 :: nat})"

definition py_isdigit :: "string \<Rightarrow> bool" where
  "py_isdigit s = (s \<noteq> [] \<and> list_all py_isdigit_char s)"

definition py_lower_char :: "char \<Rightarrow> char" where
  "py_lower_char c =
     (let n = (of_char c :: nat)
      in if (65 \<le> n \<and> n \<le> 90) \<or> (192 \<le> n \<and> n \<le> 222 \<and> n \<noteq> 215)
         then char_of (n + 32) else c)"

definition py_lower :: "string \<Rightarrow> string" where
  "py_lower s = map py_lower_char s"

definition py_remove :: "char \<Rightarrow> string \<Rightarrow> string" where
  \<comment> \<open>\<open>s.replace(c, '')\<close>\<close>
  "py_remove c s = filter (\<lambda>x. x \<noteq> c) s"

fun split_acc :: "string \<Rightarrow> string \<Rightarrow> string list" where
  "split_acc cur [] = (if cur = [] then [] else [cur])"
| "split_acc cur (c # cs) =
     (if py_isspace c
      then (if cur = [] then split_acc [] cs else cur # split_acc [] cs)
      else split_acc (cur @ [c]) cs)"

definition py_split :: "string \<Rightarrow> string list" where
  \<comment> \<open>\<open>s.split()\<close>: the maximal runs of non-whitespace characters\<close>
  "py_split s = split_acc [] s"

fun py_in :: "string \<Rightarrow> string \<Rightarrow> bool" where
  \<comment> \<open>\<open>sub in s\<close>\<close>
  "py_in sub [] = (sub = [])"
| "py_in sub (c # cs) = (take (length sub) (c # cs) = sub \<or> py_in sub cs)"

definition py_startswith :: "string \<Rightarrow> string \<Rightarrow> bool" where
  "py_startswith s p = (take (length p) s = p)"

section \<open>Python floats\<close>

text \<open>
  A float is an IEEE 754 binary64 value: a finite value is kept as the rational it
  denotes (the sign of zero is dropped: nothing below tells the two zeros apart), next
  to the two infinities and NaN.  \<open>round_double\<close> rounds a rational to the nearest
  binary64 value, ties to even, with gradual underflow and overflow to infinity: with
  \<open>e\<close> the binade of \<open>x\<close> (at least \<open>-1022\<close>) the result is the multiple \<open>m * 2 ^ (e - 52)\<close>
  nearest to \<open>x\<close>, and it overflows exactly when it reaches \<open>2 ^ 1024\<close>, that is when
  \<open>e \<ge> 1024\<close>, or \<open>e = 1023\<close> and \<open>|m| = 2 ^ 53\<close>.
\<close>

datatype pyfloat = Finite rat | PosInf | NegInf | NaN

function bit_length :: "int \<Rightarrow> int" where
  \<comment> \<open>\<open>int.bit_length\<close> of a non-negative int\<close>
  "bit_length n = (if n \<le> 0 then 0 else 1 + bit_length (n div 2))"
  by pat_completeness auto
termination
  by (relation "measure nat") auto

declare bit_length.simps [simp del]

definition pow2 :: "int \<Rightarrow> rat" where
  "pow2 e = (if 0 \<le> e then 2 ^ nat e else 1 / 2 ^ nat (- e))"

definition binade :: "rat \<Rightarrow> int" where
  \<comment> \<open>the \<open>e\<close> with \<open>2 ^ e \<le> |x| < 2 ^ (e + 1)\<close>, for \<open>x \<noteq> 0\<close>\<close>
  "binade x =
     (let (n, d) = quotient_of \<bar>x\<bar>;
          e0 = bit_length n - bit_length d
      in if pow2 e0 \<le> \<bar>x\<bar> then e0 else e0 - 1)"

definition round_half_even :: "rat \<Rightarrow> int" where
  "round_half_even y =
     (let f = \<lfloor>y\<rfloor>; r = y - of_int f
      in if r < 1 / 2 then f
         else if 1 / 2 < r then f + 1
         else if even f then f else f + 1)"

definition round_double :: "rat \<Rightarrow> pyfloat" where
  "round_double x =
     (if x = 0 then Finite 0
      else let e = max (binade x) (- 1022);
               q = pow2 (e - 52);
               m = round_half_even (x / q)
           in if 1024 \<le> e \<or> (e = 1023 \<and> \<bar>m\<bar> = 2 ^ 53)
              then (if 0 < x then PosInf else NegInf)
              else Finite (of_int m * q))"

fun float_mul :: "pyfloat \<Rightarrow> pyfloat \<Rightarrow> pyfloat" where
  "float_mul (Finite x) (Finite y) = round_double (x * y)"
| "float_mul NaN _ = NaN"
| "float_mul _ NaN = NaN"
| "float_mul (Finite x) PosInf = (if x = 0 then NaN else if 0 < x then PosInf else NegInf)"
| "float_mul (Finite x) NegInf = (if x = 0 then NaN else if 0 < x then NegInf else PosInf)"
| "float_mul PosInf (Finite y) = (if y = 0 then NaN else if 0 < y then PosInf else NegInf)"
| "float_mul NegInf (Finite y) = (if y = 0 then NaN else if 0 < y then NegInf else PosInf)"
| "float_mul PosInf PosInf = PosInf"
| "float_mul NegInf NegInf = PosInf"
| "float_mul PosInf NegInf = NegInf"
| "float_mul NegInf PosInf = NegInf"

definition float_of_int :: "int \<Rightarrow> pyfloat" where
  \<comment> \<open>the conversion of the int operand of \<open>float * int\<close>\<close>
  "float_of_int n = round_double (of_int n)"

section \<open>Exceptions\<close>

text \<open>
  An exception is its class with the text \<open>str(e)\<close> gives.  A function that can raise
  returns \<open>exn + 'a\<close>, with \<open>Inl\<close> for the raise.
\<close>

datatype exn = ValueError string | OverflowError string | KeyError string | TypeError string

fun exn_str :: "exn \<Rightarrow> string" where
  "exn_str (ValueError m) = m"
| "exn_str (OverflowError m) = m"
| "exn_str (KeyError m) = m"
| "exn_str (TypeError m) = m"

definition trunc_zero :: "rat \<Rightarrow> int" where
  "trunc_zero x = (if 0 \<le> x then \<lfloor>x\<rfloor> else \<lceil>x\<rceil>)"

fun py_int :: "pyfloat \<Rightarrow> exn + int" where
  \<comment> \<open>\<open>int(x)\<close> on a float: truncation toward zero\<close>
  "py_int (Finite x) = Inr (trunc_zero x)"
| "py_int PosInf = Inl (OverflowError ''cannot convert float infinity to integer'')"
| "py_int NegInf = Inl (OverflowError ''cannot convert float infinity to integer'')"
| "py_int NaN = Inl (ValueError ''cannot convert float NaN to integer'')"

definition int_truediv :: "int \<Rightarrow> int \<Rightarrow> exn + pyfloat" where
  \<comment> \<open>\<open>a / b\<close> on ints with \<open>b \<noteq> 0\<close>: the correctly rounded quotient\<close>
  "int_truediv a b =
     (case round_double (of_int a / of_int b) of
        Finite x \<Rightarrow> Inr (Finite x)
      | _ \<Rightarrow> Inl (OverflowError ''integer division result too large for a float''))"

subsection \<open>\<open>float(s)\<close> on a string\<close>

text \<open>
  \<open>float\<close> checks the underscores (only between two digits) on the whole string, strips
  the whitespace at both ends, and reads an optional sign followed by a decimal numeral
  with an optional exponent, or by \<open>inf\<close>, \<open>infinity\<close> or \<open>nan\<close> in any case; the
  numeral is rounded correctly.  Anything else is a ValueError.
\<close>

definition float_space :: "char \<Rightarrow> bool" where
  \<comment> \<open>0x1C..0x1F are whitespace for \<open>split\<close> but are not stripped by \<open>float\<close>\<close>
  "float_space c = (of_char c \<in> {9, 10, 11, 12, 13, 32, 133, 160 :: nat})"

fun strip_underscores :: "char \<Rightarrow> string \<Rightarrow> string option" where
  "strip_underscores prev [] = (if prev = CHR ''_'' then None else Some [])"
| "strip_underscores prev (c # cs) =
     (if c = CHR ''_''
      then (if ascii_digit prev then strip_underscores c cs else None)
      else if prev = CHR ''_'' \<and> \<not> ascii_digit c then None
      else map_option ((#) c) (strip_underscores c cs))"

definition py_strip :: "string \<Rightarrow> string" where
  "py_strip s = rev (dropWhile float_space (rev (dropWhile float_space s)))"

definition digits_value :: "string \<Rightarrow> int" where
  "digits_value ds = foldl (\<lambda>a c. 10 * a + (of_char c - 48)) 0 ds"

definition pow10 :: "int \<Rightarrow> rat" where
  "pow10 k = (if 0 \<le> k then 10 ^ nat k else 1 / 10 ^ nat (- k))"

definition split_sign :: "string \<Rightarrow> bool \<times> string" where
  "split_sign s =
     (case s of
        [] \<Rightarrow> (False, [])
      | c # cs \<Rightarrow> if c = CHR ''-'' then (True, cs)
                 else if c = CHR ''+'' then (False, cs) else (False, s))"

definition parse_exponent :: "string \<Rightarrow> int option" where
  "parse_exponent s =
     (case s of
        [] \<Rightarrow> Some 0
      | c # cs \<Rightarrow>
          if c = CHR ''e'' \<or> c = CHR ''E''
          then (let (neg, t) = split_sign cs;
                    ds = takeWhile ascii_digit t
                in if ds = [] \<or> dropWhile ascii_digit t \<noteq> [] then None
                   else Some (if neg then - digits_value ds else digits_value ds))
          else None)"

fun py_repr_char :: "char \<Rightarrow> char \<Rightarrow> string" where
  "py_repr_char q c =
     (let n = (of_char c :: nat);
          hex = (\<lambda>d. ''0123456789abcdef'' ! d)
      in if c = q \<or> c = CHR 0x5C then [CHR 0x5C, c]
         else if n = 9 then [CHR 0x5C, CHR ''t'']
         else if n = 10 then [CHR 0x5C, CHR ''n'']
         else if n = 13 then [CHR 0x5C, CHR ''r'']
         else if n < 32 \<or> (127 \<le> n \<and> n \<le> 160) \<or> n = 173
         then [CHR 0x5C, CHR ''x'', hex (n div 16), hex (n mod 16)]
         else [c])"

definition py_repr :: "string \<Rightarrow> string" where
  \<comment> \<open>\<open>repr(s)\<close>: double quotes when \<open>s\<close> has a single quote and no double quote\<close>
  "py_repr s =
     (let q = (if CHR 0x27 \<in> set s \<and> CHR 0x22 \<notin> set s then CHR 0x22 else CHR 0x27)
      in [q] @ concat (map (py_repr_char q) s) @ [q])"

definition float_error :: "string \<Rightarrow> exn" where
  "float_error s = ValueError (''could not convert string to float: '' @ py_repr s)"

definition parse_float :: "string \<Rightarrow> pyfloat option" where
  "parse_float s =
     (let (neg, r) = split_sign s;
          ip = takeWhile ascii_digit r;
          r1 = dropWhile ascii_digit r;
          (fp, r2) = (case r1 of
                        [] \<Rightarrow> ([], [])
                      | c # cs \<Rightarrow> if c = CHR ''.''
                                 then (takeWhile ascii_digit cs, dropWhile ascii_digit cs)
                                 else ([], r1))
      in if ip = [] \<and> fp = []
         then (let l = py_lower r
               in if l = ''inf'' \<or> l = ''infinity'' then Some (if neg then NegInf else PosInf)
                  else if l = ''nan'' then Some NaN
                  else None)
         else (case parse_exponent r2 of
                 None \<Rightarrow> None
               | Some ex \<Rightarrow>
                   Some (round_double
                     ((if neg then - 1 else 1) * of_int (digits_value (ip @ fp))
                        * pow10 (ex - int (length fp))))))"

definition py_float :: "string \<Rightarrow> exn + pyfloat" where
  "py_float s =
     (case strip_underscores (CHR 0x00) s of
        None \<Rightarrow> Inl (float_error s)
      | Some t \<Rightarrow>
          (case parse_float (py_strip t) of
             None \<Rightarrow> Inl (float_error s)
           | Some x \<Rightarrow> Inr x))"

section \<open>The asset transfer agent\<close>

subsection \<open>Data model\<close>

text \<open>
  The values that travel in the untyped parts of the program (\<open>Dict[str, Any]\<close>: the
  context, the transaction descriptor, the response envelope).  A dict is kept as an
  association list in insertion order.
\<close>

datatype pyval =
    PNone
  | PBool bool
  | PInt int
  | PStr string
  | PList "pyval list"
  | PDict "(string \<times> pyval) list"

fun truthy :: "pyval \<Rightarrow> bool" where
  "truthy PNone = False"
| "truthy (PBool b) = b"
| "truthy (PInt n) = (n \<noteq> 0)"
| "truthy (PStr s) = (s \<noteq> [])"
| "truthy (PList xs) = (xs \<noteq> [])"
| "truthy (PDict kvs) = (kvs \<noteq> [])"

text \<open>
  What the program takes from outside: whether the substrate library was imported
  (\<open>SUBSTRATE_AVAILABLE\<close>), the library's \<open>ss58_decode\<close> (\<open>True\<close> when it returns, \<open>False\<close>
  when it raises), the connections made by \<open>initialize\<close> with, for each, what the
  account query does for an address, the agent's id, and the base class \<open>Model\<close> of the
  two dataclasses.  The module binds \<open>Model\<close> only by importing it from uagents; that
  class removes the field defaults from the class body before \<open>@dataclass\<close> reads it,
  so that every field becomes a required argument of the constructor.
  \<open>Model_defaults\<close> is \<open>False\<close> for it, and \<open>True\<close> for a base class that leaves the
  defaults in place, as \<open>object\<close> would.  (Without uagents the name is unbound and the
  module does not load: no environment stands for that.)
\<close>

datatype account_query =
    QueryRaises exn
  | QueryFalsy
  | QueryMalformed exn
  | QueryAccount int int int

record environment =
  SUBSTRATE_AVAILABLE :: bool
  ss58_decode :: "string \<Rightarrow> nat \<Rightarrow> bool"
  substrate_interfaces :: "string \<Rightarrow> (pyval \<Rightarrow> account_query) option"
  agent_id :: string
  Model_defaults :: bool

text \<open>
  \<open>TransferRequest\<close> and \<open>TransferResponse\<close> are the two dataclasses.  The constructors
  are the ones \<open>@dataclass\<close> generates from the field declarations: a call that leaves
  out a field without a default raises TypeError, naming the missing fields in the
  order of their declaration (the text is the one of Python 3.10 and later).  A
  constructor argument is an \<open>option\<close>: \<open>None\<close> when the call does not pass it.
  \<open>sender_address\<close> is declared \<open>Optional[str]\<close>, but \<open>process_message\<close> stores whatever
  the context holds, so it is a \<open>pyval\<close>.  The calls of \<open>self.logger\<close> write to the log
  and nothing else; they are left out.
\<close>

definition quoted :: "string \<Rightarrow> string" where
  "quoted n = [CHR 0x27] @ n @ [CHR 0x27]"

fun missing_names :: "string list \<Rightarrow> string" where
  "missing_names [] = []"
| "missing_names [a] = quoted a"
| "missing_names [a, b] = quoted a @ '' and '' @ quoted b"
| "missing_names (a # b # c # rest) =
     concat (map (\<lambda>n. quoted n @ '', '') (butlast (a # b # c # rest)))
       @ ''and '' @ quoted (last (a # b # c # rest))"

definition missing_error :: "string \<Rightarrow> string list \<Rightarrow> exn" where
  \<comment> \<open>the TypeError of a call that leaves out the required \<open>names\<close> (fewer than ten)\<close>
  "missing_error cls names =
     TypeError (cls @ ''.__init__() missing '' @ [char_of (48 + length names)]
                @ '' required positional argument''
                @ (if length names = 1 then [] else ''s'') @ '': '' @ missing_names names)"

record transfer_request =
  amount :: string
  recipient :: string
  asset :: string
  network :: string
  sender_address :: pyval
  message_id :: "string option"

definition request_of :: "string \<Rightarrow> string \<Rightarrow> string \<Rightarrow> string \<Rightarrow> transfer_request" where
  \<comment> \<open>the request with the four given fields and the declared defaults\<close>
  "request_of a r s n =
     \<lparr>amount = a, recipient = r, asset = s, network = n,
      sender_address = PNone, message_id = None\<rparr>"

definition request_error :: exn where
  "request_error = missing_error ''TransferRequest'' [''sender_address'', ''message_id'']"

definition TransferRequest ::
  "environment \<Rightarrow> string \<Rightarrow> string \<Rightarrow> string \<Rightarrow> string \<Rightarrow> exn + transfer_request" where
  \<comment> \<open>\<open>TransferRequest(amount=, recipient=, asset=, network=)\<close>\<close>
  "TransferRequest env a r s n =
     (if Model_defaults env then Inr (request_of a r s n) else Inl request_error)"

record transfer_response =
  success :: bool
  message :: string
  transaction_data :: pyval
  error :: "string option"
  requires_signature :: bool

definition TransferResponse ::
  "environment \<Rightarrow> bool \<Rightarrow> string option \<Rightarrow> pyval option \<Rightarrow> string option option
     \<Rightarrow> bool option \<Rightarrow> exn + transfer_response" where
  \<comment> \<open>\<open>TransferResponse(success=, ...)\<close>: \<open>message: str\<close> has no default; the other three
      have (\<open>None\<close>, \<open>None\<close>, \<open>False\<close>) where the base class leaves them\<close>
  "TransferResponse env s m td e rs =
     (let missing =
            (if m = None then [''message''] else [])
          @ (if td = None \<and> \<not> Model_defaults env then [''transaction_data''] else [])
          @ (if e = None \<and> \<not> Model_defaults env then [''error''] else [])
          @ (if rs = None \<and> \<not> Model_defaults env then [''requires_signature''] else [])
      in if missing \<noteq> [] then Inl (missing_error ''TransferResponse'' missing)
         else Inr \<lparr>success = s, message = the m,
                   transaction_data = (case td of None \<Rightarrow> PNone | Some v \<Rightarrow> v),
                   error = (case e of None \<Rightarrow> None | Some v \<Rightarrow> v),
                   requires_signature = (case rs of None \<Rightarrow> False | Some b \<Rightarrow> b)\<rparr>)"

definition failure_error :: "environment \<Rightarrow> exn" where
  \<comment> \<open>what \<open>TransferResponse(success=False, error=...)\<close> raises\<close>
  "failure_error env =
     missing_error ''TransferResponse''
       (if Model_defaults env then [''message'']
        else [''message'', ''transaction_data'', ''requires_signature''])"

definition missing_message :: exn where
  "missing_message =
     TypeError (''TransferResponse.__init__() missing 1 required positional argument: ''
                @ [CHR 0x27] @ ''message'' @ [CHR 0x27])"

record network_config =
  rpc_url :: string
  ss58_format :: nat
  decimals :: nat
  symbol :: string

definition networks :: "(string \<times> network_config) list" where
  "networks =
     [(''polkadot'', \<lparr>rpc_url = ''wss://rpc.polkadot.io'', ss58_format = 0,
                      decimals = 10, symbol = ''DOT''\<rparr>),
      (''kusama'', \<lparr>rpc_url = ''wss://kusama-rpc.polkadot.io'', ss58_format = 2,
                    decimals = 12, symbol = ''KSM''\<rparr>),
      (''westend'', \<lparr>rpc_url = ''wss://westend-rpc.polkadot.io'', ss58_format = 42,
                     decimals = 12, symbol = ''WND''\<rparr>)]"

record balance =
  bal_free :: pyfloat
  bal_reserved :: pyfloat
  bal_frozen :: pyfloat
  bal_total :: pyfloat
  bal_symbol :: string

subsection \<open>\<open>parse_transfer_request\<close>\<close>

definition numeric_token :: "string \<Rightarrow> bool" where
  \<comment> \<open>\<open>word.replace('.', '').replace(',', '').isdigit()\<close>\<close>
  "numeric_token word = py_isdigit (py_remove (CHR '','') (py_remove (CHR ''.'') word))"

fun amount_loop :: "string list \<Rightarrow> string option" where
  "amount_loop [] = None"
| "amount_loop (word # ws) =
     (if numeric_token word then Some (py_remove (CHR '','') word) else amount_loop ws)"

definition address_token :: "string \<Rightarrow> bool" where
  \<comment> \<open>\<open>len(word) > 40 and word.startswith('5')\<close>\<close>
  "address_token word = (40 < length word \<and> py_startswith word ''5'')"

fun recipient_loop :: "string list \<Rightarrow> string option" where
  "recipient_loop [] = None"
| "recipient_loop (word # ws) = (if address_token word then Some word else recipient_loop ws)"

definition aliases :: "(string \<times> string) list" where
  "aliases =
     [(''alice'', ''5GrwvaEF5zXb26Fz9rcQpDWS57CtERHpNehXCPcNoHGKutQY''),
      (''bob'', ''5FHneW46xGXgs5mUiveU4sbTyGBzmstUspZC92UhjJM694ty''),
      (''charlie'', ''5FLSigC9HGRKVhB9FiEo4Y3koPsNmBmLJbpXg2mp1hXcS59Y'')]"

fun alias_loop :: "(string \<times> string) list \<Rightarrow> string \<Rightarrow> string option \<Rightarrow> string option" where
  \<comment> \<open>the first alias found in the lowered message replaces the recipient\<close>
  "alias_loop [] message_lower rcp = rcp"
| "alias_loop ((alias, address) # rest) message_lower rcp =
     (if py_in alias message_lower then Some address
      else alias_loop rest message_lower rcp)"

definition extract_recipient :: "string \<Rightarrow> string option" where
  \<comment> \<open>the variable \<open>recipient\<close> after the two loops\<close>
  "extract_recipient msg =
     alias_loop aliases (py_lower msg) (recipient_loop (py_split msg))"

definition extract_asset :: "string \<Rightarrow> string" where
  "extract_asset message_lower =
     (if py_in ''ksm'' message_lower \<or> py_in ''kusama'' message_lower then ''KSM''
      else if py_in ''wnd'' message_lower \<or> py_in ''westend'' message_lower then ''WND''
      else ''DOT'')"

definition network_map :: "(string \<times> string) list" where
  "network_map = [(''DOT'', ''polkadot''), (''KSM'', ''kusama''), (''WND'', ''westend'')]"

definition str_truthy :: "string option \<Rightarrow> bool" where
  \<comment> \<open>truth value of an \<open>Optional[str]\<close>\<close>
  "str_truthy v = (case v of None \<Rightarrow> False | Some s \<Rightarrow> s \<noteq> [])"

definition parse_transfer_request ::
  "environment \<Rightarrow> string \<Rightarrow> exn + transfer_request option" where
  "parse_transfer_request env msg =
     (let message_lower = py_lower msg;
          amt = amount_loop (py_split msg);
          rcp = extract_recipient msg;
          ast = extract_asset message_lower;
          net = (case map_of network_map ast of None \<Rightarrow> ''polkadot'' | Some n \<Rightarrow> n)
      in if str_truthy amt \<and> str_truthy rcp
         then (case TransferRequest env (the amt) (the rcp) ast net of
                 Inl e \<Rightarrow> Inl e
               | Inr request \<Rightarrow> Inr (Some request))
         else Inr None)"

subsection \<open>\<open>_validate_address\<close> and \<open>_get_balance\<close>\<close>

definition validate_address :: "environment \<Rightarrow> string \<Rightarrow> nat \<Rightarrow> bool" where
  "validate_address env address fmt =
     (if SUBSTRATE_AVAILABLE env then ss58_decode env address fmt
      else 40 < length address \<and> py_startswith address ''5'')"

definition get_balance_try :: "environment \<Rightarrow> pyval \<Rightarrow> string \<Rightarrow> exn + balance option" where
  \<comment> \<open>the body of the \<open>try\<close> of \<open>_get_balance\<close>; \<open>Inr None\<close> is falling out of it\<close>
  "get_balance_try env address net =
     (case substrate_interfaces env net of
        None \<Rightarrow> Inl (KeyError (py_repr net))
      | Some query \<Rightarrow>
          (case query address of
             QueryRaises e \<Rightarrow> Inl e
           | QueryFalsy \<Rightarrow> Inr None
           | QueryMalformed e \<Rightarrow> Inl e
           | QueryAccount fr rs fz \<Rightarrow>
               (case map_of networks net of
                  None \<Rightarrow> Inl (KeyError (py_repr net))
                | Some network_config \<Rightarrow>
                    (let d = 10 ^ decimals network_config
                     in case int_truediv fr d of Inl e \<Rightarrow> Inl e | Inr f1 \<Rightarrow>
                        case int_truediv rs d of Inl e \<Rightarrow> Inl e | Inr f2 \<Rightarrow>
                        case int_truediv fz d of Inl e \<Rightarrow> Inl e | Inr f3 \<Rightarrow>
                        case int_truediv (fr + rs) d of Inl e \<Rightarrow> Inl e | Inr f4 \<Rightarrow>
                          Inr (Some \<lparr>bal_free = f1, bal_reserved = f2, bal_frozen = f3,
                                     bal_total = f4, bal_symbol = symbol network_config\<rparr>)))))"

definition get_balance :: "environment \<Rightarrow> pyval \<Rightarrow> string \<Rightarrow> balance option" where
  "get_balance env address net =
     (if \<not> SUBSTRATE_AVAILABLE env \<or> substrate_interfaces env net = None then None
      else case get_balance_try env address net of
             Inl e \<Rightarrow> None
           | Inr r \<Rightarrow> r)"

subsection \<open>\<open>prepare_transfer\<close>\<close>

definition transaction_data_of :: "transfer_request \<Rightarrow> int \<Rightarrow> pyval" where
  "transaction_data_of request amount_planck =
     PDict
       [(''pallet'', PStr ''Balances''),
        (''call'', PStr ''transfer''),
        (''args'', PDict [(''dest'', PDict [(''Id'', PStr (recipient request))]),
                          (''value'', PInt amount_planck)]),
        (''network'', PStr (network request)),
        (''amount_display'', PStr (amount request @ '' '' @ asset request)),
        (''recipient_display'', PStr (recipient request)),
        (''estimated_fee'', PStr ''0.01 DOT'')]"

definition amount_to_planck :: "string \<Rightarrow> nat \<Rightarrow> exn + int" where
  \<comment> \<open>\<open>int(float(request.amount) * (10 ** decimals))\<close>\<close>
  "amount_to_planck a d =
     (case py_float a of
        Inl e \<Rightarrow> Inl e
      | Inr x \<Rightarrow> py_int (float_mul x (float_of_int (10 ^ d))))"

definition prepare_transfer_try :: "environment \<Rightarrow> transfer_request \<Rightarrow> exn + transfer_response" where
  \<comment> \<open>the body of the \<open>try\<close>\<close>
  "prepare_transfer_try env request =
     (case map_of networks (network request) of
        None \<Rightarrow>
          TransferResponse env False None None
            (Some (Some (''Unsupported network: '' @ network request))) None
      | Some network_config \<Rightarrow>
          (case amount_to_planck (amount request) (decimals network_config) of
             Inl e \<Rightarrow> Inl e
           | Inr amount_planck \<Rightarrow>
               if \<not> validate_address env (recipient request) (ss58_format network_config)
               then TransferResponse env False None None
                      (Some (Some ''Invalid recipient address format'')) None
               else
                 (let td = transaction_data_of request amount_planck;
                      balance_info =
                        (if truthy (sender_address request)
                         then get_balance env (sender_address request) (network request)
                         else None)
                  in TransferResponse env True
                       (Some (''Transfer prepared: '' @ amount request @ '' '' @ asset request
                              @ '' to '' @ take 8 (recipient request) @ ''...''))
                       (Some td) None (Some True))))"

definition prepare_transfer :: "environment \<Rightarrow> transfer_request \<Rightarrow> exn + transfer_response" where
  \<comment> \<open>the \<open>except Exception\<close> handler builds its response as the failure branches do\<close>
  "prepare_transfer env request =
     (case prepare_transfer_try env request of
        Inr response \<Rightarrow> Inr response
      | Inl e \<Rightarrow>
          TransferResponse env False None None
            (Some (Some (''Failed to prepare transfer: '' @ exn_str e))) None)"

subsection \<open>\<open>process_message\<close>\<close>

definition opt_str :: "string option \<Rightarrow> pyval" where
  "opt_str v = (case v of None \<Rightarrow> PNone | Some s \<Rightarrow> PStr s)"

definition clarification :: "(string \<times> pyval) list" where
  "clarification =
     [(''success'', PBool False),
      (''message'', PStr (''I couldn't understand the transfer request. ''
                          @ ''Please specify amount, recipient, and asset type.'')),
      (''suggestions'',
         PList [PStr ''Send 5 DOT to Alice'',
                PStr ''Transfer 10 DOT to 5GrwvaEF5zXb26Fz9rcQpDWS57CtERHpNehXCPcNoHGKutQY'',
                PStr ''Send 2.5 KSM to Bob''])]"

definition context_sender :: "(string \<times> pyval) list option \<Rightarrow> pyval option" where
  \<comment> \<open>\<open>context and context.get("sender_address")\<close>, when it is true\<close>
  "context_sender context =
     (case context of
        None \<Rightarrow> None
      | Some kvs \<Rightarrow>
          (case map_of kvs ''sender_address'' of
             None \<Rightarrow> None
           | Some v \<Rightarrow> if truthy v then Some v else None))"

definition error_envelope :: "environment \<Rightarrow> exn \<Rightarrow> (string \<times> pyval) list" where
  \<comment> \<open>the dict of the \<open>except Exception\<close> handler\<close>
  "error_envelope env e =
     [(''success'', PBool False),
      (''message'', PStr (''I encountered an error processing your request. ''
                          @ ''Please try again.'')),
      (''error'', PStr (exn_str e)),
      (''agent_id'', PStr (agent_id env))]"

definition process_message ::
  "environment \<Rightarrow> string \<Rightarrow> (string \<times> pyval) list option \<Rightarrow> (string \<times> pyval) list" where
  "process_message env msg context =
     (case parse_transfer_request env msg of
        Inl e \<Rightarrow> error_envelope env e
      | Inr None \<Rightarrow> clarification
      | Inr (Some transfer_request) \<Rightarrow>
          (let request = (case context_sender context of
                            None \<Rightarrow> transfer_request
                          | Some v \<Rightarrow> transfer_request\<lparr>sender_address := v\<rparr>)
           in case prepare_transfer env request of
                Inr response \<Rightarrow>
                  [(''success'', PBool (success response)),
                   (''message'', PStr (message response)),
                   (''transaction_data'', transaction_data response),
                   (''error'', opt_str (error response)),
                   (''requires_signature'', PBool (requires_signature response)),
                   (''agent_id'', PStr (agent_id env))]
              | Inl e \<Rightarrow> error_envelope env e))"

section \<open>Reading a response, and the inputs used below\<close>

definition dict_get :: "pyval \<Rightarrow> string \<Rightarrow> pyval option" where
  \<comment> \<open>\<open>d.get(k)\<close> on a dict value\<close>
  "dict_get d k = (case d of PDict kvs \<Rightarrow> map_of kvs k | _ \<Rightarrow> None)"

definition descriptor_value :: "pyval \<Rightarrow> pyval option" where
  \<comment> \<open>\<open>transaction_data["args"]["value"]\<close>\<close>
  "descriptor_value td =
     (case dict_get td ''args'' of None \<Rightarrow> None | Some a \<Rightarrow> dict_get a ''value'')"

definition dict_keys :: "pyval \<Rightarrow> string list" where
  "dict_keys d = (case d of PDict kvs \<Rightarrow> map fst kvs | _ \<Rightarrow> [])"

definition alice :: string where
  "alice = ''5GrwvaEF5zXb26Fz9rcQpDWS57CtERHpNehXCPcNoHGKutQY''"

definition bob :: string where
  "bob = ''5FHneW46xGXgs5mUiveU4sbTyGBzmstUspZC92UhjJM694ty''"

definition plain_env :: environment where
  \<comment> \<open>a base class that adds nothing; the substrate library is absent: the basic
      address check, no connection\<close>
  "plain_env =
     \<lparr>SUBSTRATE_AVAILABLE = False, ss58_decode = (\<lambda>a f. False),
      substrate_interfaces = (\<lambda>n. None), agent_id = ''asset-transfer-agent'',
      Model_defaults = True\<rparr>"

definition format42_env :: environment where
  \<comment> \<open>a base class that adds nothing; the substrate library is present; its decoder
      takes the addresses here for addresses of format 42 and refuses them for any
      other format; every account query raises\<close>
  "format42_env =
     \<lparr>SUBSTRATE_AVAILABLE = True, ss58_decode = (\<lambda>a f. f = 42),
      substrate_interfaces =
        (\<lambda>n. if n \<in> set (map fst networks)
             then Some (\<lambda>a. QueryRaises (ValueError ''connection closed''))
             else None),
      agent_id = ''asset-transfer-agent'', Model_defaults = True\<rparr>"

definition agentverse_env :: environment where
  \<comment> \<open>uagents and the substrate library are both present: \<open>Model\<close> is uagents' class,
      the decoder and the connections are those of \<open>format42_env\<close>\<close>
  "agentverse_env = format42_env\<lparr>Model_defaults := False\<rparr>"

text \<open>
  The spec's reading of the amount: a decimal numeral is a run of digits, optionally
  followed by a point and a run of digits, with a digit somewhere; its value is exact.
\<close>

definition decimal_numeral :: "string \<Rightarrow> bool" where
  "decimal_numeral s =
     (let ip = takeWhile ascii_digit s
      in case dropWhile ascii_digit s of
           [] \<Rightarrow> ip \<noteq> []
         | c # fp \<Rightarrow> c = CHR ''.'' \<and> list_all ascii_digit fp \<and> (ip \<noteq> [] \<or> fp \<noteq> []))"

definition fractional_digits :: "string \<Rightarrow> nat" where
  "fractional_digits s = length (drop 1 (dropWhile ascii_digit s))"

definition decimal_value :: "string \<Rightarrow> rat" where
  "decimal_value s =
     of_int (digits_value (takeWhile ascii_digit s @ drop 1 (dropWhile ascii_digit s)))
       / 10 ^ fractional_digits s"


section \<open>\<open>prepare_transfer\<close>: its two outcomes\<close>

lemma missing_message_eq: "missing_error ''TransferResponse'' [''message''] = missing_message"
  by code_simp

lemma failure_error_defaults: "Model_defaults env \<Longrightarrow> failure_error env = missing_message"
  by (simp add: failure_error_def missing_message_eq)

lemma plain_defaults: "Model_defaults plain_env"
  by (simp add: plain_env_def)

lemma format42_defaults: "Model_defaults format42_env"
  by (simp add: format42_env_def)

lemma agentverse_no_defaults: "\<not> Model_defaults agentverse_env"
  by (simp add: agentverse_env_def)

lemma TransferResponse_failure:
  "TransferResponse env False None None (Some e) None = Inl (failure_error env)"
  by (simp add: TransferResponse_def failure_error_def)

lemma TransferResponse_success:
  "Model_defaults env \<Longrightarrow>
   TransferResponse env True (Some m) (Some td) None (Some True) =
     Inr \<lparr>success = True, message = m, transaction_data = td, error = None,
          requires_signature = True\<rparr>"
  by (simp add: TransferResponse_def)

lemma TransferResponse_success_no_defaults:
  "\<not> Model_defaults env \<Longrightarrow>
   TransferResponse env True (Some m) (Some td) None (Some True) =
     Inl (missing_error ''TransferResponse'' [''error''])"
  by (simp add: TransferResponse_def)

lemma prepare_transfer_Inl:
  "prepare_transfer_try env req = Inl e \<Longrightarrow> prepare_transfer env req = Inl (failure_error env)"
  by (simp add: prepare_transfer_def TransferResponse_failure)

lemma prepare_transfer_unknown_network:
  "map_of networks (network req) = None \<Longrightarrow> prepare_transfer env req = Inl (failure_error env)"
  by (simp add: prepare_transfer_def prepare_transfer_try_def TransferResponse_failure)

lemma prepare_transfer_bad_amount:
  "map_of networks (network req) = Some cfg \<Longrightarrow>
   amount_to_planck (amount req) (decimals cfg) = Inl e \<Longrightarrow>
   prepare_transfer env req = Inl (failure_error env)"
  by (simp add: prepare_transfer_def prepare_transfer_try_def TransferResponse_failure)

lemma prepare_transfer_bad_recipient:
  "map_of networks (network req) = Some cfg \<Longrightarrow>
   \<not> validate_address env (recipient req) (ss58_format cfg) \<Longrightarrow>
   prepare_transfer env req = Inl (failure_error env)"
  by (simp add: prepare_transfer_def prepare_transfer_try_def TransferResponse_failure
           split: sum.splits)

lemma prepare_transfer_try_no_defaults:
  "\<not> Model_defaults env \<Longrightarrow> isl (prepare_transfer_try env req)"
  by (simp add: prepare_transfer_try_def TransferResponse_failure
        TransferResponse_success_no_defaults Let_def split: option.splits sum.splits)

lemma prepare_transfer_no_defaults:
  "\<not> Model_defaults env \<Longrightarrow> prepare_transfer env req = Inl (failure_error env)"
  using prepare_transfer_try_no_defaults [of env req]
  by (cases "prepare_transfer_try env req") (simp_all add: prepare_transfer_Inl)

lemma prepare_transfer_success:
  assumes "map_of networks (network req) = Some cfg"
    and "amount_to_planck (amount req) (decimals cfg) = Inr v"
    and "validate_address env (recipient req) (ss58_format cfg)"
    and "Model_defaults env"
  shows "prepare_transfer env req =
     Inr \<lparr>success = True,
          message = ''Transfer prepared: '' @ amount req @ '' '' @ asset req
                    @ '' to '' @ take 8 (recipient req) @ ''...'',
          transaction_data = transaction_data_of req v, error = None,
          requires_signature = True\<rparr>"
  using assms
  by (simp add: prepare_transfer_def prepare_transfer_try_def TransferResponse_success Let_def)

lemma prepare_transfer_InrD:
  assumes "prepare_transfer env req = Inr resp"
  shows "\<exists>cfg v. map_of networks (network req) = Some cfg
          \<and> amount_to_planck (amount req) (decimals cfg) = Inr v
          \<and> validate_address env (recipient req) (ss58_format cfg)
          \<and> Model_defaults env
          \<and> resp = \<lparr>success = True,
                message = ''Transfer prepared: '' @ amount req @ '' '' @ asset req
                          @ '' to '' @ take 8 (recipient req) @ ''...'',
                transaction_data = transaction_data_of req v, error = None,
                requires_signature = True\<rparr>"
proof -
  have d: "Model_defaults env"
    using assms prepare_transfer_no_defaults [of env req] by auto
  show ?thesis
  proof (cases "map_of networks (network req)")
    case None
    then show ?thesis using assms prepare_transfer_unknown_network by fastforce
  next
    case (Some cfg)
    show ?thesis
    proof (cases "amount_to_planck (amount req) (decimals cfg)")
      case (Inl e)
      then show ?thesis using assms Some prepare_transfer_bad_amount by fastforce
    next
      case (Inr v)
      show ?thesis
      proof (cases "validate_address env (recipient req) (ss58_format cfg)")
        case False
        then show ?thesis using assms Some prepare_transfer_bad_recipient by fastforce
      next
        case True
        from prepare_transfer_success [OF Some Inr True d] assms Some Inr True d
        show ?thesis by auto
      qed
    qed
  qed
qed







lemma prepare_transfer_raises_only_failure_error:
  "prepare_transfer env req = Inl e \<Longrightarrow> e = failure_error env"
  by (auto simp: prepare_transfer_def TransferResponse_failure split: sum.splits)

lemma get_balance_no_interface:
  "substrate_interfaces env net = None \<Longrightarrow> get_balance env a net = None"
  by (simp add: get_balance_def)

lemma get_balance_query_raises:
  "substrate_interfaces env net = Some q \<Longrightarrow> q a = QueryRaises e \<Longrightarrow>
   get_balance env a net = None"
  by (simp add: get_balance_def get_balance_try_def)

lemma dict_get_transaction_data:
  "dict_get (transaction_data_of req v) ''pallet'' = Some (PStr ''Balances'')"
  "dict_get (transaction_data_of req v) ''call'' = Some (PStr ''transfer'')"
  "dict_get (transaction_data_of req v) ''estimated_fee'' = Some (PStr ''0.01 DOT'')"
  "dict_get (transaction_data_of req v) ''network'' = Some (PStr (network req))"
  "descriptor_value (transaction_data_of req v) = Some (PInt v)"
  "dict_keys (transaction_data_of req v) =
     [''pallet'', ''call'', ''args'', ''network'', ''amount_display'',
      ''recipient_display'', ''estimated_fee'']"
  by (simp_all add: dict_get_def transaction_data_of_def descriptor_value_def dict_keys_def)

lemma map_of_networks:
  "map_of networks ''polkadot'' =
     Some \<lparr>rpc_url = ''wss://rpc.polkadot.io'', ss58_format = 0, decimals = 10,
           symbol = ''DOT''\<rparr>"
  "map_of networks ''kusama'' =
     Some \<lparr>rpc_url = ''wss://kusama-rpc.polkadot.io'', ss58_format = 2, decimals = 12,
           symbol = ''KSM''\<rparr>"
  "map_of networks ''westend'' =
     Some \<lparr>rpc_url = ''wss://westend-rpc.polkadot.io'', ss58_format = 42, decimals = 12,
           symbol = ''WND''\<rparr>"
  by (simp_all add: networks_def)



section \<open>\<open>float\<close> on a decimal numeral\<close>








lemma takeWhile_all: "list_all P xs \<Longrightarrow> takeWhile P xs = xs"
  by (induction xs) auto

lemma dropWhile_all: "list_all P xs \<Longrightarrow> dropWhile P xs = []"
  by (induction xs) auto











lemma trunc_zero_of_int: "trunc_zero (of_int m) = m"
  by (simp add: trunc_zero_def)


subsection \<open>Whole numbers below \<open>2^53\<close> are doubles\<close>

lemma bit_length_le: "0 \<le> k \<Longrightarrow> n < 2 ^ nat k \<Longrightarrow> bit_length n \<le> k"
proof (induction n arbitrary: k rule: bit_length.induct)
  case (1 n)
  show ?case
  proof (cases "n \<le> 0")
    case True
    then show ?thesis using "1.prems" by (simp add: bit_length.simps)
  next
    case False
    then have k: "1 \<le> k"
      using "1.prems" by (cases "k = 0") auto
    then have "(2::int) ^ nat k = 2 * 2 ^ nat (k - 1)"
      by (metis Suc_nat_eq_nat_zadd1 diff_add_cancel diff_ge_0_iff_ge power_Suc add.commute)
    then have "n div 2 < 2 ^ nat (k - 1)"
      using "1.prems" by auto
    with "1.IH" [OF False, of "k - 1"] k have "bit_length (n div 2) \<le> k - 1"
      by simp
    with False show ?thesis by (simp add: bit_length.simps)
  qed
qed

lemma bit_length_pos: "0 < n \<Longrightarrow> 1 \<le> bit_length n"
proof -
  assume "0 < n"
  moreover have "0 \<le> bit_length m" for m
    by (induction m rule: bit_length.induct) (simp add: bit_length.simps)
  ultimately show ?thesis by (subst bit_length.simps) (simp add: add_increasing2)
qed

lemma bit_length_1: "bit_length 1 = 1"
  by (simp add: bit_length.simps)

lemma round_half_even_of_int: "round_half_even (of_int m) = m"
  by (simp add: round_half_even_def)

lemma binade_of_int:
  assumes "0 < n" "n < 2 ^ 53"
  shows "- 1 \<le> binade (of_int n) \<and> binade (of_int n) \<le> 52"
proof -
  have "bit_length n \<le> 53" using bit_length_le [of 53 n] assms(2) by simp
  moreover have "1 \<le> bit_length n" using assms(1) by (rule bit_length_pos)
  ultimately show ?thesis
    using assms(1) by (simp add: binade_def bit_length_1 Let_def)
qed

lemma round_double_of_int:
  assumes "0 < n" "n < 2 ^ 53"
  shows "round_double (of_int n) = Finite (of_int n)"
proof -
  define e where "e = binade (of_int n)"
  have e: "- 1 \<le> e" "e \<le> 52" using binade_of_int [OF assms] by (simp_all add: e_def)
  then have m: "max e (- 1022) = e" by simp
  have q: "pow2 (e - 52) = 1 / 2 ^ nat (52 - e)"
    using e by (auto simp: pow2_def)
  have "of_int n / pow2 (e - 52) = (of_int (n * 2 ^ nat (52 - e)) :: rat)"
    by (simp add: q)
  then have r: "round_half_even (of_int n / pow2 (e - 52)) = n * 2 ^ nat (52 - e)"
    by (simp only: round_half_even_of_int)
  have "of_int (n * 2 ^ nat (52 - e)) * pow2 (e - 52) = (of_int n :: rat)"
    by (simp add: q)
  then show ?thesis
    using assms(1) e unfolding round_double_def e_def [symmetric] m Let_def r
    by simp
qed

lemma whole_amount_exact:
  assumes "a \<noteq> []" "list_all ascii_digit a" "0 < digits_value a"
    and "digits_value a * 10 ^ d < 2 ^ 53"
  shows "decimal_numeral a" "fractional_digits a = 0"
    "round_double (decimal_value a) = Finite (decimal_value a)"
    "round_double (decimal_value a * 10 ^ d) = Finite (decimal_value a * 10 ^ d)"
proof -
  have v: "decimal_value a = of_int (digits_value a)"
    using assms(2) by (simp add: decimal_value_def fractional_digits_def takeWhile_all
          dropWhile_all)
  show "decimal_numeral a"
    using assms(1,2) by (simp add: decimal_numeral_def takeWhile_all dropWhile_all)
  show "fractional_digits a = 0"
    using assms(2) by (simp add: fractional_digits_def dropWhile_all)
  have "digits_value a * 1 \<le> digits_value a * 10 ^ d"
    using assms(3) by (intro mult_left_mono) auto
  then have "digits_value a < 2 ^ 53" using assms(4) by simp
  then show "round_double (decimal_value a) = Finite (decimal_value a)"
    unfolding v using assms(3) by (intro round_double_of_int)
  have "0 < digits_value a * 10 ^ d" using assms(3) by simp
  from round_double_of_int [OF this assms(4)]
  show "round_double (decimal_value a * 10 ^ d) = Finite (decimal_value a * 10 ^ d)"
    unfolding v by simp
qed

subsection \<open>The error of a rounding\<close>
















section \<open>Conversions evaluated\<close>


lemma planck_2_5_KSM: "amount_to_planck ''2.5'' 12 = Inr 2500000000000"
  by code_simp

lemma planck_5_DOT: "amount_to_planck ''5'' 10 = Inr 50000000000"
  by code_simp



lemma planck_1_2_3: "isl (amount_to_planck ''1.2.3'' 10)"
  by code_simp


section \<open>\<open>parse_transfer_request\<close>: the loops\<close>

lemma amount_loop_None: "\<forall>w\<in>set ws. \<not> numeric_token w \<Longrightarrow> amount_loop ws = None"
  by (induction ws) auto

lemma recipient_loop_None: "\<forall>w\<in>set ws. \<not> address_token w \<Longrightarrow> recipient_loop ws = None"
  by (induction ws) auto

lemma recipient_loop_Some:
  "\<exists>w\<in>set ws. address_token w \<Longrightarrow> \<exists>w. recipient_loop ws = Some w \<and> address_token w"
  by (induction ws) auto

lemma alias_loop_find:
  "alias_loop al ml r =
     (case List.find (\<lambda>(a, addr). py_in a ml) al of None \<Rightarrow> r | Some (a, addr) \<Rightarrow> Some addr)"
  by (induction al ml r rule: alias_loop.induct) auto

lemma find_aliases_Some:
  "\<exists>(a, addr)\<in>set al. py_in a ml \<Longrightarrow> List.find (\<lambda>(a, addr). py_in a ml) al \<noteq> None"
  by (auto simp: find_None_iff)

lemma find_aliases_None:
  "\<forall>(a, addr)\<in>set al. \<not> py_in a ml \<Longrightarrow> List.find (\<lambda>(a, addr). py_in a ml) al = None"
  by (auto simp: find_None_iff)

lemma amount_loop_Some:
  "\<exists>w\<in>set ws. numeric_token w \<Longrightarrow> \<exists>a. amount_loop ws = Some a \<and> a \<noteq> []"
proof (induction ws)
  case Nil
  then show ?case by simp
next
  case (Cons w ws)
  have "py_remove (CHR '','') w \<noteq> []" if "numeric_token w"
  proof -
    from that obtain c where "c \<in> set (py_remove (CHR '','') (py_remove (CHR ''.'') w))"
      by (cases "py_remove (CHR '','') (py_remove (CHR ''.'') w)")
         (auto simp: numeric_token_def py_isdigit_def)
    then have "c \<in> set (py_remove (CHR '','') w)"
      by (auto simp: py_remove_def)
    then show ?thesis by auto
  qed
  with Cons show ?case by auto
qed

lemma amount_loop_nonempty: "amount_loop ws = Some a \<Longrightarrow> a \<noteq> []"
  using amount_loop_Some [of ws] amount_loop_None [of ws] by fastforce

lemma aliases_nonempty:
  "List.find P aliases = Some (a, addr) \<Longrightarrow> addr \<noteq> []"
  by (auto simp: aliases_def split: if_splits)

lemma parse_None_amount:
  "amount_loop (py_split msg) = None \<Longrightarrow> parse_transfer_request env msg = Inr None"
  by (simp add: parse_transfer_request_def str_truthy_def Let_def)

lemma parse_None_recipient:
  "extract_recipient msg = None \<Longrightarrow> parse_transfer_request env msg = Inr None"
  by (simp add: parse_transfer_request_def str_truthy_def Let_def)

lemma parse_found:
  assumes "amount_loop (py_split msg) = Some a" "a \<noteq> []"
    and "extract_recipient msg = Some r" "r \<noteq> []"
  shows "parse_transfer_request env msg =
           (if Model_defaults env
            then Inr (Some (request_of a r (extract_asset (py_lower msg))
                        (case map_of network_map (extract_asset (py_lower msg)) of
                           None \<Rightarrow> ''polkadot'' | Some n \<Rightarrow> n)))
            else Inl request_error)"
  using assms
  by (simp add: parse_transfer_request_def str_truthy_def Let_def TransferRequest_def)

lemma parse_Some_recipient:
  "parse_transfer_request env msg = Inr (Some req) \<Longrightarrow>
   extract_recipient msg = Some (recipient req)"
  by (auto simp: parse_transfer_request_def str_truthy_def Let_def TransferRequest_def
        request_of_def split: if_splits option.splits)

lemma parse_raises_only_request_error:
  "parse_transfer_request env msg = Inl e \<Longrightarrow> e = request_error \<and> \<not> Model_defaults env"
  by (auto simp: parse_transfer_request_def Let_def TransferRequest_def split: if_splits)

lemma parse_returns_with_defaults:
  "parse_transfer_request env msg = Inr (Some req) \<Longrightarrow> Model_defaults env"
  by (auto simp: parse_transfer_request_def Let_def TransferRequest_def split: if_splits)

lemma process_message_None:
  "parse_transfer_request env msg = Inr None \<Longrightarrow> process_message env msg ctx = clarification"
  by (simp add: process_message_def)

lemma send_5_parts:
  "amount_loop (py_split ''Send 5 DOT to Alice'') = Some ''5''"
  "extract_recipient ''Send 5 DOT to Alice'' = Some alice"
  "extract_asset (py_lower ''Send 5 DOT to Alice'') = ''DOT''"
  by code_simp+

lemma send_123_parts:
  "amount_loop (py_split ''Send 1.2.3 DOT to Alice'') = Some ''1.2.3''"
  "extract_recipient ''Send 1.2.3 DOT to Alice'' = Some alice"
  "extract_asset (py_lower ''Send 1.2.3 DOT to Alice'') = ''DOT''"
  by code_simp+

lemma alice_nonempty: "alice \<noteq> []"
  by (simp add: alice_def)

lemma parse_send_5:
  "parse_transfer_request env ''Send 5 DOT to Alice'' =
     (if Model_defaults env then Inr (Some (request_of ''5'' alice ''DOT'' ''polkadot''))
      else Inl request_error)"
  using parse_found [of "''Send 5 DOT to Alice''" "''5''" alice env]
  by (simp add: send_5_parts alice_nonempty network_map_def)

lemma parse_send_123:
  "parse_transfer_request env ''Send 1.2.3 DOT to Alice'' =
     (if Model_defaults env then Inr (Some (request_of ''1.2.3'' alice ''DOT'' ''polkadot''))
      else Inl request_error)"
  using parse_found [of "''Send 1.2.3 DOT to Alice''" "''1.2.3''" alice env]
  by (simp add: send_123_parts alice_nonempty network_map_def)

lemma hello_amount: "amount_loop (py_split ''hello'') = None"
  by code_simp

lemma parse_hello: "parse_transfer_request env ''hello'' = Inr None"
  by (simp add: parse_None_amount hello_amount)

lemma send_5_dot_to_alice_prepared:
  assumes "Model_defaults env"
    and "\<not> SUBSTRATE_AVAILABLE env \<or> ss58_decode env alice 0"
  shows "process_message env ''Send 5 DOT to Alice'' None =
         [(''success'', PBool True),
          (''message'', PStr ''Transfer prepared: 5 DOT to 5GrwvaEF...''),
          (''transaction_data'',
             transaction_data_of (request_of ''5'' alice ''DOT'' ''polkadot'') (5 * 10 ^ 10)),
          (''error'', PNone),
          (''requires_signature'', PBool True),
          (''agent_id'', PStr (agent_id env))]"
proof -
  let ?r = "request_of ''5'' alice ''DOT'' ''polkadot''"
  let ?c = "\<lparr>rpc_url = ''wss://rpc.polkadot.io'', ss58_format = 0, decimals = 10,
             symbol = ''DOT''\<rparr>"
  have n: "map_of networks (network ?r) = Some ?c"
    by (simp add: request_of_def map_of_networks)
  have a: "amount_to_planck (amount ?r) (decimals ?c) = Inr 50000000000"
    by (simp add: request_of_def planck_5_DOT)
  have "40 < length alice \<and> py_startswith alice ''5''"
    by (simp add: alice_def py_startswith_def)
  with assms(2) have v: "validate_address env (recipient ?r) (ss58_format ?c)"
    by (auto simp: validate_address_def request_of_def)
  show ?thesis
    using assms(1)
    by (simp add: process_message_def parse_send_5 context_sender_def
          prepare_transfer_success [OF n a v assms(1)] opt_str_def)
       (simp add: request_of_def alice_def)
qed

section \<open>The claims\<close>

text \<open>
  C1.  Claim: for "Send 5 DOT to Alice" with no context, the parsed request has amount
  "5", Alice's address, asset DOT and network polkadot, and \<open>process_message\<close> returns a
  \<open>success = true\<close> envelope whose descriptor has \<open>args.value = 5 * 10^10\<close>.  This is
  the agent's own test message and its first suggestion, and the code fails on it:
  with uagents' \<open>Model\<close> the request cannot be built, and with the substrate library
  present Alice's address (a format 42 address of the alias table) is checked against
  polkadot's format 0, refused, and the failure response cannot be built.  Either
  way \<open>process_message\<close> returns its catch-all envelope with \<open>success = false\<close> and
  no transaction data.  (Only \<open>send_5_dot_to_alice_prepared\<close> gives the claimed
  envelope: a base class that adds nothing and an address check that accepts.)
\<close>

theorem send_5_dot_to_alice_fails:
  assumes "\<not> Model_defaults env \<or> (SUBSTRATE_AVAILABLE env \<and> \<not> ss58_decode env alice 0)"
  shows "process_message env ''Send 5 DOT to Alice'' None =
           [(''success'', PBool False),
            (''message'',
               PStr ''I encountered an error processing your request. Please try again.''),
            (''error'',
               PStr (exn_str (if Model_defaults env then missing_message else request_error))),
            (''agent_id'', PStr (agent_id env))]"
proof (cases "Model_defaults env")
  case False
  then show ?thesis
    by (simp add: process_message_def parse_send_5 error_envelope_def)
next
  case True
  let ?r = "request_of ''5'' alice ''DOT'' ''polkadot''"
  let ?c = "\<lparr>rpc_url = ''wss://rpc.polkadot.io'', ss58_format = 0, decimals = 10,
             symbol = ''DOT''\<rparr>"
  have n: "map_of networks (network ?r) = Some ?c"
    by (simp add: request_of_def map_of_networks)
  from True assms have v: "\<not> validate_address env (recipient ?r) (ss58_format ?c)"
    by (simp add: validate_address_def request_of_def)
  show ?thesis
    using True
    by (simp add: process_message_def parse_send_5 context_sender_def error_envelope_def
          prepare_transfer_bad_recipient [OF n v] failure_error_defaults)
qed

theorem send_5_dot_to_alice_fails_witness:
  "Model_defaults agentverse_env = False
   \<and> map_of (process_message agentverse_env ''Send 5 DOT to Alice'' None) ''success''
       = Some (PBool False)
   \<and> map_of (process_message agentverse_env ''Send 5 DOT to Alice'' None) ''error''
       = Some (PStr (exn_str request_error))
   \<and> map_of (process_message agentverse_env ''Send 5 DOT to Alice'' None)
        ''transaction_data'' = None
   \<and> SUBSTRATE_AVAILABLE format42_env
   \<and> ss58_decode format42_env alice 0 = False
   \<and> map_of (process_message format42_env ''Send 5 DOT to Alice'' None) ''success''
       = Some (PBool False)
   \<and> map_of (process_message format42_env ''Send 5 DOT to Alice'' None) ''error''
       = Some (PStr (exn_str missing_message))"
proof -
  have h: "\<not> Model_defaults agentverse_env
           \<or> (SUBSTRATE_AVAILABLE agentverse_env \<and> \<not> ss58_decode agentverse_env alice 0)"
    by (simp add: agentverse_no_defaults)
  have s: "SUBSTRATE_AVAILABLE format42_env" "ss58_decode format42_env alice 0 = False"
    by (simp_all add: format42_env_def)
  then have g: "\<not> Model_defaults format42_env
           \<or> (SUBSTRATE_AVAILABLE format42_env \<and> \<not> ss58_decode format42_env alice 0)"
    by simp
  from send_5_dot_to_alice_fails [OF h] send_5_dot_to_alice_fails [OF g] s show ?thesis
    by (simp add: agentverse_no_defaults format42_defaults)
qed










text \<open>
  C4.  Claim: for a request whose network is not a key of the registry,
  \<open>prepare_transfer\<close> returns a failure response mentioning the unsupported network and
  raises nothing.  The code does not: the failure response is built without the
  required \<open>message\<close>, the constructor raises TypeError, the handler builds its own
  response the same way, and the TypeError leaves \<open>prepare_transfer\<close> (naming
  \<open>message\<close> alone where the base class leaves the defaults, and the three fields the
  call leaves out where it does not).
\<close>

theorem unsupported_network_raises:
  "map_of networks (network req) = None \<Longrightarrow>
   prepare_transfer env req = Inl (failure_error env)
   \<and> (Model_defaults env \<longrightarrow> prepare_transfer env req = Inl missing_message)"
  by (simp add: prepare_transfer_unknown_network failure_error_defaults)

theorem unsupported_network_raises_witness:
  "map_of networks (network (request_of ''1'' alice ''GLMR'' ''moonbeam'')) = None
   \<and> prepare_transfer plain_env (request_of ''1'' alice ''GLMR'' ''moonbeam'')
       = Inl missing_message
   \<and> prepare_transfer agentverse_env (request_of ''1'' alice ''GLMR'' ''moonbeam'')
       = Inl (missing_error ''TransferResponse''
                [''message'', ''transaction_data'', ''requires_signature''])"
  using unsupported_network_raises [of "request_of ''1'' alice ''GLMR'' ''moonbeam''" plain_env]
    unsupported_network_raises
      [of "request_of ''1'' alice ''GLMR'' ''moonbeam''" agentverse_env]
  by (simp add: networks_def request_of_def plain_defaults failure_error_def
        agentverse_no_defaults missing_message_eq)

text \<open>
  C5.  Claim: for a supported network and a parseable amount, a recipient that fails
  the address validation gives a failure response with the error
  "invalid recipient address" and no transaction data.  The code raises the same
  TypeError instead, for the same reason as in C4.
\<close>

theorem invalid_recipient_raises:
  "map_of networks (network req) = Some cfg \<Longrightarrow>
   \<not> validate_address env (recipient req) (ss58_format cfg) \<Longrightarrow>
   prepare_transfer env req = Inl (failure_error env)
   \<and> (Model_defaults env \<longrightarrow> prepare_transfer env req = Inl missing_message)"
  by (simp add: prepare_transfer_bad_recipient failure_error_defaults)

theorem invalid_recipient_raises_witness:
  "map_of networks (network (request_of ''5'' ''abc'' ''DOT'' ''polkadot''))
     = Some \<lparr>rpc_url = ''wss://rpc.polkadot.io'', ss58_format = 0, decimals = 10,
             symbol = ''DOT''\<rparr>
   \<and> \<not> validate_address plain_env
         (recipient (request_of ''5'' ''abc'' ''DOT'' ''polkadot'')) 0
   \<and> prepare_transfer plain_env (request_of ''5'' ''abc'' ''DOT'' ''polkadot'')
       = Inl missing_message"
proof -
  let ?r = "request_of ''5'' ''abc'' ''DOT'' ''polkadot''"
  let ?c = "\<lparr>rpc_url = ''wss://rpc.polkadot.io'', ss58_format = 0, decimals = 10,
             symbol = ''DOT''\<rparr>"
  have n: "map_of networks (network ?r) = Some ?c"
    by (simp add: request_of_def map_of_networks)
  have v: "\<not> validate_address plain_env (recipient ?r) (ss58_format ?c)"
    by (simp add: request_of_def validate_address_def plain_env_def)
  from invalid_recipient_raises [OF n v] n v show ?thesis
    by (simp add: failure_error_defaults [OF plain_defaults])
qed

text \<open>
  C6.  Claim: every envelope returned by \<open>process_message\<close> has all the non-optional
  fields of the output contract, in particular \<open>requires_signature\<close> and \<open>agent_id\<close>,
  the clarification envelope and the catch-all envelope included.  The clarification
  envelope has neither field and the catch-all envelope has no \<open>requires_signature\<close>.
  As amended: an envelope has one of three shapes, each with a boolean \<open>success\<close> and a
  string \<open>message\<close>: the clarification (with \<open>suggestions\<close>); the envelope of a prepared
  transfer, with \<open>transaction_data\<close>, \<open>error\<close>, \<open>requires_signature\<close> and \<open>agent_id\<close>; and
  the catch-all, with \<open>error\<close> and \<open>agent_id\<close>, whose error is the TypeError of the
  response or of the request.
\<close>

theorem envelope_shapes:
  "process_message env msg ctx = clarification
   \<or> (Model_defaults env \<and> (\<exists>m td. process_message env msg ctx =
         [(''success'', PBool True), (''message'', PStr m),
          (''transaction_data'', PDict td), (''error'', PNone),
          (''requires_signature'', PBool True), (''agent_id'', PStr (agent_id env))]))
   \<or> process_message env msg ctx =
         [(''success'', PBool False),
          (''message'', PStr (''I encountered an error processing your request. ''
                              @ ''Please try again.'')),
          (''error'', PStr (exn_str (failure_error env))),
          (''agent_id'', PStr (agent_id env))]
   \<or> (Model_defaults env = False \<and> process_message env msg ctx =
         [(''success'', PBool False),
          (''message'', PStr (''I encountered an error processing your request. ''
                              @ ''Please try again.'')),
          (''error'', PStr (exn_str request_error)),
          (''agent_id'', PStr (agent_id env))])"
proof (cases "parse_transfer_request env msg")
  case (Inl e)
  then have "e = request_error" "\<not> Model_defaults env"
    using parse_raises_only_request_error by blast+
  with Inl show ?thesis
    by (simp add: process_message_def error_envelope_def)
next
  case (Inr parsed)
  show ?thesis
  proof (cases parsed)
    case None
    with Inr show ?thesis by (simp add: process_message_None)
  next
    case (Some tr)
    define request where "request = (case context_sender ctx of None \<Rightarrow> tr
                            | Some v \<Rightarrow> tr\<lparr>sender_address := v\<rparr>)"
    show ?thesis
    proof (cases "prepare_transfer env request")
      case (Inl e)
      then have "e = failure_error env" by (rule prepare_transfer_raises_only_failure_error)
      with Inl Inr Some show ?thesis
        by (simp add: process_message_def request_def error_envelope_def)
    next
      case r: (Inr resp)
      from prepare_transfer_InrD [OF r] obtain v where "Model_defaults env" and
        "resp = \<lparr>success = True,
                  message = ''Transfer prepared: '' @ amount request @ '' '' @ asset request
                            @ '' to '' @ take 8 (recipient request) @ ''...'',
                  transaction_data = transaction_data_of request v, error = None,
                  requires_signature = True\<rparr>"
        by auto
      with r Inr Some show ?thesis
        by (simp add: process_message_def request_def [symmetric] opt_str_def
              transaction_data_of_def)
    qed
  qed
qed

theorem envelope_shapes_witness:
  "process_message plain_env ''hello'' None = clarification"
  using envelope_shapes [of plain_env "''hello''" None]
  by (simp add: process_message_None parse_hello)

theorem envelope_fields_counterexample:
  "map_of (process_message plain_env ''hello'' None) ''requires_signature'' = None
   \<and> map_of (process_message plain_env ''hello'' None) ''agent_id'' = None
   \<and> map_of (process_message plain_env ''Send 1.2.3 DOT to Alice'' None)
        ''requires_signature'' = None"
proof -
  let ?r = "request_of ''1.2.3'' alice ''DOT'' ''polkadot''"
  let ?c = "\<lparr>rpc_url = ''wss://rpc.polkadot.io'', ss58_format = 0, decimals = 10,
             symbol = ''DOT''\<rparr>"
  have n: "map_of networks (network ?r) = Some ?c"
    by (simp add: request_of_def map_of_networks)
  obtain e where "amount_to_planck ''1.2.3'' 10 = Inl e"
    using planck_1_2_3 by (cases "amount_to_planck ''1.2.3'' 10") auto
  then have a: "amount_to_planck (amount ?r) (decimals ?c) = Inl e"
    by (simp add: request_of_def)
  have "map_of (process_message plain_env ''Send 1.2.3 DOT to Alice'' None)
          ''requires_signature'' = None"
    by (simp add: process_message_def parse_send_123 plain_defaults context_sender_def
          prepare_transfer_bad_amount [OF n a] error_envelope_def)
  then show ?thesis
    by (simp add: process_message_None parse_hello clarification_def)
qed



text \<open>
  C8.  For a message in which no whitespace-delimited token is numeric (digits once
  the points and commas are taken out), or in which there is neither an address-like
  token nor an alias, \<open>parse_transfer_request\<close> returns None and \<open>process_message\<close>
  returns the clarification envelope: \<open>success = false\<close>, the three example phrasings,
  no \<open>error\<close> field.
\<close>

theorem unparseable_message_clarification:
  assumes "(\<forall>w\<in>set (py_split msg). \<not> numeric_token w)
           \<or> ((\<forall>w\<in>set (py_split msg). \<not> address_token w)
               \<and> (\<forall>(a, addr)\<in>set aliases. \<not> py_in a (py_lower msg)))"
  shows "parse_transfer_request env msg = Inr None
         \<and> process_message env msg ctx = clarification
         \<and> map_of clarification ''success'' = Some (PBool False)
         \<and> map_of clarification ''error'' = None
         \<and> map_of clarification ''suggestions'' =
             Some (PList [PStr ''Send 5 DOT to Alice'',
                          PStr (''Transfer 10 DOT to '' @ alice),
                          PStr ''Send 2.5 KSM to Bob''])"
proof -
  have "parse_transfer_request env msg = Inr None"
    using assms
  proof
    assume "\<forall>w\<in>set (py_split msg). \<not> numeric_token w"
    then show ?thesis by (simp add: amount_loop_None parse_None_amount)
  next
    assume a: "(\<forall>w\<in>set (py_split msg). \<not> address_token w)
               \<and> (\<forall>(a, addr)\<in>set aliases. \<not> py_in a (py_lower msg))"
    then have "recipient_loop (py_split msg) = None"
      by (simp add: recipient_loop_None)
    moreover from a have "List.find (\<lambda>(a, addr). py_in a (py_lower msg)) aliases = None"
      by (simp add: find_aliases_None)
    ultimately have "extract_recipient msg = None"
      by (simp add: extract_recipient_def alias_loop_find)
    then show ?thesis by (rule parse_None_recipient)
  qed
  then show ?thesis
    by (simp add: process_message_None clarification_def alice_def)
qed

lemma hello_tokens:
  "(\<forall>w\<in>set (py_split ''hello there''). \<not> numeric_token w)"
  by code_simp

theorem unparseable_message_clarification_witness:
  "list_all (\<lambda>w. \<not> numeric_token w) (py_split ''hello there'')
   \<and> parse_transfer_request agentverse_env ''hello there'' = Inr None
   \<and> process_message agentverse_env ''hello there'' None = clarification"
  using unparseable_message_clarification [of "''hello there''" agentverse_env None]
    hello_tokens
  by (simp add: list_all_iff)

text \<open>
  C9.  For a message with both a literal address token (longer than 40 characters,
  starting with 5) and an alias in its lowered text, the literal scan finds a token
  and the alias scan then replaces it: the recipient is the address of the first
  alias of the table found in the message.  What \<open>parse_transfer_request\<close> does with
  it: without a numeric token it returns None; with one it builds the request with
  that recipient, which it returns where the base class \<open>Model\<close> leaves the
  constructor its defaults (and which raises where it does not).
\<close>

theorem alias_overrides_literal:
  assumes "\<exists>w\<in>set (py_split msg). address_token w"
    and "\<exists>(a, addr)\<in>set aliases. py_in a (py_lower msg)"
  shows "\<exists>w a addr.
           recipient_loop (py_split msg) = Some w \<and> address_token w
           \<and> List.find (\<lambda>(a, addr). py_in a (py_lower msg)) aliases = Some (a, addr)
           \<and> extract_recipient msg = Some addr
           \<and> parse_transfer_request env msg =
               (case amount_loop (py_split msg) of
                  None \<Rightarrow> Inr None
                | Some amt \<Rightarrow>
                    if Model_defaults env
                    then Inr (Some (request_of amt addr (extract_asset (py_lower msg))
                                (case map_of network_map (extract_asset (py_lower msg)) of
                                   None \<Rightarrow> ''polkadot'' | Some n \<Rightarrow> n)))
                    else Inl request_error)
           \<and> ((\<exists>w\<in>set (py_split msg). numeric_token w) \<and> Model_defaults env
                \<longrightarrow> (\<exists>req. parse_transfer_request env msg = Inr (Some req)
                           \<and> recipient req = addr))"
proof -
  from assms(1) obtain w where w: "recipient_loop (py_split msg) = Some w" "address_token w"
    using recipient_loop_Some by blast
  from assms(2) obtain a addr where
    f: "List.find (\<lambda>(a, addr). py_in a (py_lower msg)) aliases = Some (a, addr)"
    using find_aliases_Some by fastforce
  then have r: "extract_recipient msg = Some addr"
    by (simp add: extract_recipient_def alias_loop_find)
  have ne: "addr \<noteq> []" using f by (rule aliases_nonempty)
  have p: "parse_transfer_request env msg =
               (case amount_loop (py_split msg) of
                  None \<Rightarrow> Inr None
                | Some amt \<Rightarrow>
                    if Model_defaults env
                    then Inr (Some (request_of amt addr (extract_asset (py_lower msg))
                                (case map_of network_map (extract_asset (py_lower msg)) of
                                   None \<Rightarrow> ''polkadot'' | Some n \<Rightarrow> n)))
                    else Inl request_error)"
  proof (cases "amount_loop (py_split msg)")
    case None
    then show ?thesis by (simp add: parse_None_amount)
  next
    case (Some amt)
    then have "amt \<noteq> []" by (rule amount_loop_nonempty)
    from parse_found [OF Some this r ne, of env] Some show ?thesis by simp
  qed
  have "\<exists>req. parse_transfer_request env msg = Inr (Some req) \<and> recipient req = addr"
    if "\<exists>w\<in>set (py_split msg). numeric_token w" "Model_defaults env"
  proof -
    from that(1) obtain amt where "amount_loop (py_split msg) = Some amt"
      using amount_loop_Some by blast
    with p that(2) show ?thesis by (simp add: request_of_def)
  qed
  with w f r p show ?thesis by blast
qed

lemma both_numeric:
  "\<exists>w\<in>set (py_split (''Send 5 DOT to '' @ bob @ '' or to Alice'')). numeric_token w"
  by code_simp

lemma both_tokens:
  "\<exists>w\<in>set (py_split (''Send 5 DOT to '' @ bob @ '' or to Alice'')). address_token w"
  by code_simp

lemma both_alias:
  "\<exists>(a, addr)\<in>set aliases. py_in a (py_lower (''Send 5 DOT to '' @ bob @ '' or to Alice''))"
  by code_simp

lemma both_find:
  "List.find (\<lambda>(a, addr). py_in a (py_lower (''Send 5 DOT to '' @ bob @ '' or to Alice'')))
     aliases = Some (''alice'', alice)"
  by code_simp

lemma both_literal:
  "recipient_loop (py_split (''Send 5 DOT to '' @ bob @ '' or to Alice'')) = Some bob"
  by code_simp

theorem alias_overrides_literal_witness:
  "recipient_loop (py_split (''Send 5 DOT to '' @ bob @ '' or to Alice'')) = Some bob
   \<and> extract_recipient (''Send 5 DOT to '' @ bob @ '' or to Alice'') = Some alice
   \<and> map_sum id (map_option recipient)
        (parse_transfer_request plain_env (''Send 5 DOT to '' @ bob @ '' or to Alice''))
       = Inr (Some alice)"
proof -
  from alias_overrides_literal [OF both_tokens both_alias, of plain_env]
    both_numeric plain_defaults
  obtain req a addr where
    "parse_transfer_request plain_env (''Send 5 DOT to '' @ bob @ '' or to Alice'')
       = Inr (Some req)"
    and "List.find (\<lambda>(a, addr). py_in a (py_lower (''Send 5 DOT to '' @ bob @ '' or to Alice'')))
           aliases = Some (a, addr)"
    and "extract_recipient (''Send 5 DOT to '' @ bob @ '' or to Alice'') = Some addr"
    and "recipient req = addr"
    by blast
  then show ?thesis
    using both_find both_literal by simp
qed

text \<open>
  C10.  Every successfully prepared transfer, whatever its network and asset, has the
  descriptor fields \<open>pallet = "Balances"\<close>, \<open>call = "transfer"\<close> and
  \<open>estimated_fee = "0.01 DOT"\<close>: the fee is written in DOT for KSM and WND too.
\<close>

theorem descriptor_constant_fields:
  assumes "prepare_transfer env req = Inr resp"
  shows "success resp
         \<and> dict_get (transaction_data resp) ''pallet'' = Some (PStr ''Balances'')
         \<and> dict_get (transaction_data resp) ''call'' = Some (PStr ''transfer'')
         \<and> dict_get (transaction_data resp) ''estimated_fee'' = Some (PStr ''0.01 DOT'')"
proof -
  from prepare_transfer_InrD [OF assms] obtain v where
    "success resp" and "transaction_data resp = transaction_data_of req v"
    by auto
  then show ?thesis by (simp add: dict_get_transaction_data)
qed

theorem descriptor_constant_fields_witness:
  "(case prepare_transfer plain_env (request_of ''2.5'' bob ''KSM'' ''kusama'') of
      Inl e \<Rightarrow> False
    | Inr resp \<Rightarrow>
        success resp
        \<and> dict_get (transaction_data resp) ''network'' = Some (PStr ''kusama'')
        \<and> dict_get (transaction_data resp) ''pallet'' = Some (PStr ''Balances'')
        \<and> dict_get (transaction_data resp) ''call'' = Some (PStr ''transfer'')
        \<and> dict_get (transaction_data resp) ''estimated_fee'' = Some (PStr ''0.01 DOT''))"
proof -
  let ?r = "request_of ''2.5'' bob ''KSM'' ''kusama''"
  let ?c = "\<lparr>rpc_url = ''wss://kusama-rpc.polkadot.io'', ss58_format = 2,
             decimals = 12, symbol = ''KSM''\<rparr>"
  have n: "map_of networks (network ?r) = Some ?c"
    by (simp add: request_of_def map_of_networks)
  have a: "amount_to_planck (amount ?r) (decimals ?c) = Inr 2500000000000"
    by (simp add: request_of_def planck_2_5_KSM)
  have v: "validate_address plain_env (recipient ?r) (ss58_format ?c)"
    by (simp add: request_of_def validate_address_def plain_env_def bob_def
          py_startswith_def)
  note p = prepare_transfer_success [OF n a v plain_defaults]
  show ?thesis
    unfolding p using descriptor_constant_fields [OF p]
    by (simp add: dict_get_transaction_data request_of_def)
qed
end
